theory Spec2Isabelle
  imports Complex_Main
begin

section \<open>The pet store: records, daily reset, alert status\<close>

text \<open>
  The development embeds the store module (the \<^verbatim>\<open>pets\<close> object, \<^verbatim>\<open>verificarReset\<close>,
  \<^verbatim>\<open>calcularStatus\<close>) and the two API routes that use it (\<^verbatim>\<open>GET\<close>/\<^verbatim>\<open>POST\<close> of
  \<^verbatim>\<open>/api/pet\<close>, \<^verbatim>\<open>GET\<close> of \<^verbatim>\<open>/api/status\<close>).

  Conventions of the embedding.
  \<^item> A point in time is the time value of a JavaScript \<^verbatim>\<open>Date\<close>: an integer number of
    milliseconds since the epoch. The ISO text stored in \<^verbatim>\<open>ultimoHorarioComida\<close> and read
    back with \<^verbatim>\<open>new Date(...)\<close> denotes the same time value, so the field holds the
    time value itself; \<^verbatim>\<open>null\<close> is \<open>None\<close>.
  \<^item> Every \<^verbatim>\<open>new Date()\<close> in the source is a separate clock reading. In the routes and
    in \<open>calcularStatus\<close> each one is a separate argument of the function that performs
    it; in \<open>calcularStatusM\<close> it is taken from the clock of the world.
  \<^item> Strings are sequences of code units below 256, so that a \<open>char\<close> is one code unit.
  \<^item> Counters are JavaScript numbers holding small integers; they are integers here.
\<close>

type_synonym instante = int

subsection \<open>Calendar arithmetic of \<^verbatim>\<open>Date.prototype.getDate\<close>\<close>

definition msPerDay :: int where
  "msPerDay = 86400000"

definition Day :: "instante \<Rightarrow> int" where
  \<comment> \<open>the day number of a time value: \<open>floor (t / msPerDay)\<close>\<close>
  "Day t = t div msPerDay"

definition diaDoMes :: "int \<Rightarrow> int" where
  \<comment> \<open>day of the month (1 to 31) of a day number, proleptic Gregorian calendar,
      computed over 400-year eras that start on 1 March\<close>
  "diaDoMes d =
     (let z = d + 719468;
          doe = z mod 146097;
          yoe = (doe - doe div 1460 + doe div 36524 - doe div 146096) div 365;
          doy = doe - (365 * yoe + yoe div 4 - yoe div 100);
          mp = (5 * doy + 2) div 153
      in doy - (153 * mp + 2) div 5 + 1)"

definition DateFromTime :: "instante \<Rightarrow> int" where
  "DateFromTime t = diaDoMes (Day t)"

definition LocalTime :: "(instante \<Rightarrow> int) \<Rightarrow> instante \<Rightarrow> instante" where
  \<comment> \<open>\<open>tza t\<close> is the offset of the process's time zone at \<open>t\<close>, in milliseconds\<close>
  "LocalTime tza t = t + tza t"

definition getDate :: "(instante \<Rightarrow> int) \<Rightarrow> instante \<Rightarrow> int" where
  "getDate tza t = DateFromTime (LocalTime tza t)"

definition diaCivil :: "(instante \<Rightarrow> int) \<Rightarrow> instante \<Rightarrow> int" where
  \<comment> \<open>the calendar day of a time value in the process's time zone, as a day number\<close>
  "diaCivil tza t = Day (LocalTime tza t)"

definition utc :: "instante \<Rightarrow> int" where
  "utc t = 0"

subsection \<open>The records of the store\<close>

datatype dataLocal = ToLocaleString instante
  \<comment> \<open>the text \<^verbatim>\<open>new Date().toLocaleString("pt-BR")\<close> of a clock reading; the rendering
      itself is left symbolic\<close>

record nota =
  texto :: string
  data :: dataLocal

record pet =
  dataNascimento :: string
  especie :: string
  genero :: string
  raca :: string
  peso :: string
  cor :: string
  comida :: int
  ultimoHorarioComida :: "instante option"
  maxComida :: int
  temRemedio :: bool
  remedio :: "int option"
  ultimoHorarioRemedio :: "instante option"
  maxRemedio :: "int option"
  alertaSaude :: bool
  notas :: "nota list"

text \<open>
  The object \<^verbatim>\<open>noah\<close> of the source has no \<^verbatim>\<open>remedio\<close>, \<^verbatim>\<open>ultimoHorarioRemedio\<close>,
  \<^verbatim>\<open>maxRemedio\<close> and \<^verbatim>\<open>alertaSaude\<close> properties. A missing number is \<open>None\<close>; a missing
  time is \<open>None\<close> like \<^verbatim>\<open>null\<close> (the source only tests it for truthiness); the missing
  flag is \<open>False\<close> (the source only tests it for truthiness and never writes it).
\<close>

definition tutu :: pet where
  "tutu = \<lparr>dataNascimento = ''2025-03-17'', especie = ''Gato'', genero = ''Macho'',
           raca = ''Vira-lata'', peso = ''3,4 kg'', cor = ''Branco e laranja'',
           comida = 0, ultimoHorarioComida = None, maxComida = 3,
           temRemedio = True, remedio = Some 0, ultimoHorarioRemedio = None,
           maxRemedio = Some 2, alertaSaude = False, notas = []\<rparr>"

definition noah :: pet where
  "noah = \<lparr>dataNascimento = ''2019-07-22'', especie = ''Cachorro'', genero = ''Macho'',
           raca = ''Vira-lata'', peso = ''28 kg'', cor = ''Branco'',
           comida = 0, ultimoHorarioComida = None, maxComida = 3,
           temRemedio = False, remedio = None, ultimoHorarioRemedio = None,
           maxRemedio = None, alertaSaude = False, notas = []\<rparr>"

record estado =
  pets :: "string \<rightharpoonup> pet"
  ultimoReset :: int

definition estadoInicial :: "(instante \<Rightarrow> int) \<Rightarrow> instante \<Rightarrow> estado" where
  \<comment> \<open>the module's state once loaded at time \<open>t0\<close>\<close>
  "estadoInicial tza t0 =
     \<lparr>pets = [''tutu'' \<mapsto> tutu, ''noah'' \<mapsto> noah], ultimoReset = getDate tza t0\<rparr>"

subsection \<open>\<^verbatim>\<open>verificarReset\<close>\<close>

definition zerarContadores :: "pet \<Rightarrow> pet" where
  \<comment> \<open>the body of the \<^verbatim>\<open>forEach\<close> callback, on one record\<close>
  "zerarContadores p =
     (let p1 = p\<lparr>comida := 0, ultimoHorarioComida := None\<rparr>
      in if temRemedio p1 then p1\<lparr>remedio := Some 0, ultimoHorarioRemedio := None\<rparr>
         else p1)"

definition verificarReset :: "(instante \<Rightarrow> int) \<Rightarrow> instante \<Rightarrow> estado \<Rightarrow> estado" where
  "verificarReset tza agora st =
     (let hoje = getDate tza agora
      in if hoje \<noteq> ultimoReset st
         then st\<lparr>pets := (\<lambda>animal. map_option zerarContadores (pets st animal)),
                 ultimoReset := hoje\<rparr>
         else st)"

subsection \<open>\<^verbatim>\<open>calcularStatus\<close>\<close>

datatype mensagem = Alerta_de_saude | Alerta_de_comida | Alerta_de_remedio | Tudo_certo
  \<comment> \<open>the four fixed message texts of the source\<close>

record status =
  tipo :: string
  mensagem :: mensagem

definition horasDesde :: "instante \<Rightarrow> instante \<Rightarrow> real" where
  \<comment> \<open>\<^verbatim>\<open>(agora - ultima) / 1000 / 60 / 60\<close>\<close>
  "horasDesde agora ultima = real_of_int (agora - ultima) / 1000 / 60 / 60"

definition calcularStatus :: "pet \<Rightarrow> instante \<Rightarrow> status" where
  "calcularStatus p agora =
     (if alertaSaude p then \<lparr>tipo = ''saude'', mensagem = Alerta_de_saude\<rparr>
      else if (case ultimoHorarioComida p of
                 None \<Rightarrow> False
               | Some ultimaComida \<Rightarrow> horasDesde agora ultimaComida \<ge> 8)
      then \<lparr>tipo = ''comida'', mensagem = Alerta_de_comida\<rparr>
      else if temRemedio p \<and>
              (case ultimoHorarioRemedio p of
                 None \<Rightarrow> False
               | Some ultimoRemedio \<Rightarrow> horasDesde agora ultimoRemedio \<ge> 12)
      then \<lparr>tipo = ''remedio'', mensagem = Alerta_de_remedio\<rparr>
      else \<lparr>tipo = ''ok'', mensagem = Tudo_certo\<rparr>)"

subsection \<open>The routes of \<^verbatim>\<open>/api/pet\<close> and \<^verbatim>\<open>/api/status\<close>\<close>

definition espaco :: "char \<Rightarrow> bool" where
  \<comment> \<open>the white space and line terminator code units below 256 that \<^verbatim>\<open>trim\<close> removes:
      TAB, LF, VT, FF, CR, SP, NBSP\<close>
  "espaco c = (of_char c \<in> {9, 10, 11, 12, 13, 32, 160 :: nat})"

definition trim :: "string \<Rightarrow> string" where
  "trim s = rev (dropWhile espaco (rev (dropWhile espaco s)))"

definition textoAparado :: "string option \<Rightarrow> string option" where
  \<comment> \<open>\<^verbatim>\<open>texto?.trim()\<close> when it is truthy: the trimmed text, if there is one and it is
      not empty\<close>
  "textoAparado t =
     (case t of
        None \<Rightarrow> None
      | Some s \<Rightarrow> if trim s = [] then None else Some (trim s))"

definition menor :: "int option \<Rightarrow> int option \<Rightarrow> bool" where
  \<comment> \<open>\<^verbatim>\<open><\<close> on two properties that may be missing: a comparison with \<^verbatim>\<open>undefined\<close>
      is false\<close>
  "menor a b = (case (a, b) of (Some x, Some y) \<Rightarrow> x < y | _ \<Rightarrow> False)"

definition atualizar :: "instante \<Rightarrow> instante \<Rightarrow> string \<Rightarrow> string option \<Rightarrow> pet \<Rightarrow> pet" where
  \<comment> \<open>the three updates of \<^verbatim>\<open>POST\<close> on the record found; \<open>agoraISO\<close> is the reading
      behind \<^verbatim>\<open>agoraISO\<close>, \<open>agoraNota\<close> the reading taken when a note is pushed\<close>
  "atualizar agoraISO agoraNota tipo' texto' p =
     (let p1 = (if tipo' = ''comida'' \<and> comida p < maxComida p
                then p\<lparr>comida := comida p + 1, ultimoHorarioComida := Some agoraISO\<rparr>
                else p);
          p2 = (if tipo' = ''remedio'' \<and> temRemedio p1
                then (if menor (remedio p1) (maxRemedio p1)
                      then p1\<lparr>remedio := map_option (\<lambda>r. r + 1) (remedio p1),
                              ultimoHorarioRemedio := Some agoraISO\<rparr>
                      else p1)
                else p1)
      in (case (if tipo' = ''nota'' then textoAparado texto' else None) of
            Some aparado \<Rightarrow>
              p2\<lparr>notas := notas p2 @ [\<lparr>texto = aparado, data = ToLocaleString agoraNota\<rparr>]\<rparr>
          | None \<Rightarrow> p2))"

datatype valor = Indefinido | Registro pet | ObjectPrototype | FuncaoHerdada
  \<comment> \<open>what \<^verbatim>\<open>pets[animal]\<close> evaluates to: \<^verbatim>\<open>undefined\<close>, a record of the store, or a
      property that the object literal inherits from \<^verbatim>\<open>Object.prototype\<close>\<close>

definition funcoesHerdadas :: "string list" where
  "funcoesHerdadas =
     [''constructor'', ''hasOwnProperty'', ''isPrototypeOf'', ''propertyIsEnumerable'',
      ''toLocaleString'', ''toString'', ''valueOf'', ''__defineGetter__'',
      ''__defineSetter__'', ''__lookupGetter__'', ''__lookupSetter__'']"

definition obter :: "(string \<rightharpoonup> pet) \<Rightarrow> string \<Rightarrow> valor" where
  \<comment> \<open>the property read \<^verbatim>\<open>pets[animal]\<close>: own properties first, then the prototype\<close>
  "obter ps animal =
     (case ps animal of
        Some p \<Rightarrow> Registro p
      | None \<Rightarrow>
          if animal = ''__proto__'' then ObjectPrototype
          else if animal \<in> set funcoesHerdadas then FuncaoHerdada
          else Indefinido)"

datatype erro = JSON_invalido | Animal_invalido

datatype resposta =
    Ok200 pet
  | Ok200_objeto_vazio
  | Erro400 erro
  | Erro500
  \<comment> \<open>\<open>Ok200_objeto_vazio\<close>: status 200 with the body \<^verbatim>\<open>{}\<close>; \<open>Erro500\<close>: the handler
      threw a \<^verbatim>\<open>TypeError\<close>\<close>

type_synonym corpo = "string \<times> string \<times> string option"
  \<comment> \<open>the decoded request body: \<^verbatim>\<open>animal\<close>, \<^verbatim>\<open>tipo\<close> and the optional \<^verbatim>\<open>texto\<close>\<close>

definition POST ::
  "(instante \<Rightarrow> int) \<Rightarrow> instante \<Rightarrow> instante \<Rightarrow> instante \<Rightarrow> corpo option \<Rightarrow> estado
     \<Rightarrow> estado \<times> resposta" where
  \<comment> \<open>\<open>agoraReset\<close>, \<open>agoraISO\<close>, \<open>agoraNota\<close>: the three clock readings of one call, in
      program order; a body that is not JSON is \<open>None\<close>\<close>
  "POST tza agoraReset agoraISO agoraNota body st =
     (let st1 = verificarReset tza agoraReset st
      in case body of
           None \<Rightarrow> (st1, Erro400 JSON_invalido)
         | Some (animal, tipo', texto') \<Rightarrow>
             (case obter (pets st1) animal of
                Indefinido \<Rightarrow> (st1, Erro400 Animal_invalido)
              | Registro p \<Rightarrow>
                  (let p' = atualizar agoraISO agoraNota tipo' texto' p
                   in (st1\<lparr>pets := (pets st1)(animal \<mapsto> p')\<rparr>, Ok200 p'))
              | ObjectPrototype \<Rightarrow>
                  (if tipo' = ''nota'' \<and> textoAparado texto' \<noteq> None
                   then (st1, Erro500)
                   else (st1, Ok200_objeto_vazio))
              | FuncaoHerdada \<Rightarrow> (st1, Erro500)))"

definition GET_pet ::
  "(instante \<Rightarrow> int) \<Rightarrow> instante \<Rightarrow> string option \<Rightarrow> estado \<Rightarrow> estado \<times> resposta" where
  \<comment> \<open>\<open>animal\<close> is \<^verbatim>\<open>searchParams.get("animal")\<close>: \<open>None\<close> when the parameter is absent\<close>
  "GET_pet tza agoraReset animal st =
     (let st1 = verificarReset tza agoraReset st
      in case animal of
           None \<Rightarrow> (st1, Erro400 Animal_invalido)
         | Some a \<Rightarrow>
             if a = [] then (st1, Erro400 Animal_invalido)
             else (case obter (pets st1) a of
                     Indefinido \<Rightarrow> (st1, Erro400 Animal_invalido)
                   | Registro p \<Rightarrow> (st1, Ok200 p)
                   | ObjectPrototype \<Rightarrow> (st1, Ok200_objeto_vazio)
                   | FuncaoHerdada \<Rightarrow> (st1, Erro500)))"

definition GET_status ::
  "(instante \<Rightarrow> int) \<Rightarrow> instante \<Rightarrow> (string \<Rightarrow> instante) \<Rightarrow> estado
     \<Rightarrow> estado \<times> (string \<rightharpoonup> status)" where
  \<comment> \<open>\<open>agora nome\<close> is the clock reading inside the \<^verbatim>\<open>calcularStatus\<close> call for \<open>nome\<close>\<close>
  "GET_status tza agoraReset agora st =
     (let st1 = verificarReset tza agoraReset st
      in (st1, \<lambda>nome. map_option (\<lambda>p. calcularStatus p (agora nome)) (pets st1 nome)))"

subsection \<open>\<^verbatim>\<open>calcularStatus\<close> with its clock and its store\<close>

text \<open>
  \<^verbatim>\<open>calcularStatus\<close> once more, as the call \<^verbatim>\<open>calcularStatus(pets[nome])\<close> runs: the
  function gets a reference into the store, not a copy, and reads the clock itself. The
  world holds the store and the clock (the readings \<^verbatim>\<open>new Date()\<close> returns, and how
  many were taken); the call returns its result with the world it leaves. A name that
  is not in the store gives \<open>None\<close> (reading a property of \<^verbatim>\<open>undefined\<close> throws).
\<close>

record mundo =
  loja :: estado
  relogio :: "nat \<Rightarrow> instante"
  leituras :: nat

definition novaData :: "mundo \<Rightarrow> instante \<times> mundo" where
  \<comment> \<open>\<^verbatim>\<open>new Date()\<close>: the next reading of the clock\<close>
  "novaData w = (relogio w (leituras w), w\<lparr>leituras := Suc (leituras w)\<rparr>)"

definition calcularStatusM :: "string \<Rightarrow> mundo \<Rightarrow> status option \<times> mundo" where
  "calcularStatusM nome w =
     (case novaData w of
        (agora, w1) \<Rightarrow>
          (case pets (loja w1) nome of
             None \<Rightarrow> (None, w1)
           | Some pet \<Rightarrow>
               if alertaSaude pet
               then (Some \<lparr>tipo = ''saude'', mensagem = Alerta_de_saude\<rparr>, w1)
               else if (case ultimoHorarioComida pet of
                          None \<Rightarrow> False
                        | Some ultimaComida \<Rightarrow> horasDesde agora ultimaComida \<ge> 8)
               then (Some \<lparr>tipo = ''comida'', mensagem = Alerta_de_comida\<rparr>, w1)
               else if temRemedio pet \<and>
                       (case ultimoHorarioRemedio pet of
                          None \<Rightarrow> False
                        | Some ultimoRemedio \<Rightarrow> horasDesde agora ultimoRemedio \<ge> 12)
               then (Some \<lparr>tipo = ''remedio'', mensagem = Alerta_de_remedio\<rparr>, w1)
               else (Some \<lparr>tipo = ''ok'', mensagem = Tudo_certo\<rparr>, w1)))"

subsection \<open>Sequences of calls\<close>

type_synonym chamada = "instante \<times> instante \<times> instante \<times> corpo option"
  \<comment> \<open>one \<^verbatim>\<open>POST\<close> call: its three clock readings and its body\<close>

fun POSTs :: "(instante \<Rightarrow> int) \<Rightarrow> chamada list \<Rightarrow> estado \<Rightarrow> estado" where
  "POSTs tza [] st = st"
| "POSTs tza ((agoraReset, agoraISO, agoraNota, body) # cs) st =
     POSTs tza cs (fst (POST tza agoraReset agoraISO agoraNota body st))"

fun atualizacoes :: "(instante \<times> instante \<times> string \<times> string option) list \<Rightarrow> pet \<Rightarrow> pet" where
  \<comment> \<open>successive updates of one record, with no reset in between\<close>
  "atualizacoes [] p = p"
| "atualizacoes ((agoraISO, agoraNota, tipo', texto') # as) p =
     atualizacoes as (atualizar agoraISO agoraNota tipo' texto' p)"

datatype evento = Atualizacao instante instante string "string option" | Zeragem
  \<comment> \<open>what can happen to one record: an update by a \<^verbatim>\<open>POST\<close> call (its two clock
      readings, \<^verbatim>\<open>tipo\<close> and \<^verbatim>\<open>texto\<close>), or a pass of the daily reset\<close>

fun aplicar :: "evento \<Rightarrow> pet \<Rightarrow> pet" where
  "aplicar (Atualizacao agoraISO agoraNota tipo' texto') p =
     atualizar agoraISO agoraNota tipo' texto' p"
| "aplicar Zeragem p = zerarContadores p"

fun historico :: "evento list \<Rightarrow> pet \<Rightarrow> pet" where
  "historico [] p = p"
| "historico (e # es) p = historico es (aplicar e p)"

definition anotar ::
  "instante \<times> instante \<times> string \<Rightarrow> instante \<times> instante \<times> string \<times> string option" where
  \<comment> \<open>the update that a note request with text \<open>t\<close> asks for\<close>
  "anotar x = (case x of (agoraISO, agoraNota, t) \<Rightarrow> (agoraISO, agoraNota, ''nota'', Some t))"

definition entrada :: "instante \<times> instante \<times> string \<Rightarrow> nota" where
  \<comment> \<open>the entry that such a request leaves in \<^verbatim>\<open>notas\<close>\<close>
  "entrada x =
     (case x of (agoraISO, agoraNota, t) \<Rightarrow> \<lparr>texto = trim t, data = ToLocaleString agoraNota\<rparr>)"

subsection \<open>The alert conditions in the words of the specification\<close>

definition comidaAtrasada :: "pet \<Rightarrow> instante \<Rightarrow> bool" where
  \<comment> \<open>the last feed time is set and at least 8 hours (in milliseconds) have passed\<close>
  "comidaAtrasada p agora = (\<exists>u. ultimoHorarioComida p = Some u \<and> 8 * 3600000 \<le> agora - u)"

definition remedioAtrasado :: "pet \<Rightarrow> instante \<Rightarrow> bool" where
  \<comment> \<open>the pet takes medication, the last medication time is set and at least 12 hours
      have passed\<close>
  "remedioAtrasado p agora =
     (temRemedio p \<and> (\<exists>u. ultimoHorarioRemedio p = Some u \<and> 12 * 3600000 \<le> agora - u))"

section \<open>Elapsed hours\<close>

text \<open>
  The source divides the millisecond difference by 1000, 60 and 60 and compares with 8
  or 12. Both thresholds are whole numbers of milliseconds, so the comparison is one
  between integers.
\<close>

lemma horas_ge_8: "(horasDesde a u \<ge> 8) = (28800000 \<le> a - u)"
proof -
  have "(horasDesde a u \<ge> 8) = (real_of_int 28800000 \<le> real_of_int (a - u))"
    unfolding horasDesde_def by (simp add: field_simps)
  also have "\<dots> = (28800000 \<le> a - u)"
    by (rule of_int_le_iff)
  finally show ?thesis .
qed

lemma horas_ge_12: "(horasDesde a u \<ge> 12) = (43200000 \<le> a - u)"
proof -
  have "(horasDesde a u \<ge> 12) = (real_of_int 43200000 \<le> real_of_int (a - u))"
    unfolding horasDesde_def by (simp add: field_simps)
  also have "\<dots> = (43200000 \<le> a - u)"
    by (rule of_int_le_iff)
  finally show ?thesis .
qed

section \<open>The alert status\<close>

lemma tipo_calcularStatus:
  "tipo (calcularStatus p agora) =
     (if alertaSaude p then ''saude''
      else if comidaAtrasada p agora then ''comida''
      else if remedioAtrasado p agora then ''remedio''
      else ''ok'')"
  by (cases "ultimoHorarioComida p"; cases "ultimoHorarioRemedio p")
     (simp_all add: calcularStatus_def comidaAtrasada_def remedioAtrasado_def
        horas_ge_8 horas_ge_12)

text \<open>
  C3, as amended. \<^verbatim>\<open>calcularStatus\<close> returns the first kind that matches in the order
  health, food, medication, ok: the kind is \<open>saude\<close> exactly when the health flag is set;
  \<open>comida\<close> exactly when it is not and the last feed time is set and at least 8 hours old;
  \<open>remedio\<close> exactly when neither holds and the pet takes medication whose last time is
  set and at least 12 hours old; \<open>ok\<close> exactly when none holds. A record that was never
  fed and has no health flag is never reported as \<open>comida\<close>: its kind is \<open>remedio\<close> when
  the medication is overdue and \<open>ok\<close> otherwise.
\<close>

theorem calcularStatus_priority:
  "(tipo (calcularStatus p agora) = ''saude'') = alertaSaude p \<and>
   (tipo (calcularStatus p agora) = ''comida'') = (\<not> alertaSaude p \<and> comidaAtrasada p agora) \<and>
   (tipo (calcularStatus p agora) = ''remedio'') =
     (\<not> alertaSaude p \<and> \<not> comidaAtrasada p agora \<and> remedioAtrasado p agora) \<and>
   (tipo (calcularStatus p agora) = ''ok'') =
     (\<not> alertaSaude p \<and> \<not> comidaAtrasada p agora \<and> \<not> remedioAtrasado p agora) \<and>
   (\<not> alertaSaude p \<and> ultimoHorarioComida p = None \<longrightarrow>
      tipo (calcularStatus p agora) = (if remedioAtrasado p agora then ''remedio'' else ''ok''))"
  unfolding tipo_calcularStatus
  by (simp add: comidaAtrasada_def)

theorem calcularStatus_priority_witness:
  "(\<not> alertaSaude noah \<and> ultimoHorarioComida noah = None) \<and>
   tipo (calcularStatus noah 0) = ''ok''"
  using calcularStatus_priority [of noah 0]
  by (simp add: noah_def remedioAtrasado_def)

text \<open>
  The claim as written ends with: a record that was never fed and has no health flag
  evaluates to \<open>ok\<close>. Tutu, medicated at time 0 and never fed, is reported as \<open>remedio\<close>
  twelve hours later.
\<close>

theorem calcularStatus_never_fed_counterexample:
  "\<not> alertaSaude (tutu\<lparr>ultimoHorarioRemedio := Some 0\<rparr>) \<and>
   ultimoHorarioComida (tutu\<lparr>ultimoHorarioRemedio := Some 0\<rparr>) = None \<and>
   tipo (calcularStatus (tutu\<lparr>ultimoHorarioRemedio := Some 0\<rparr>) 43200000) = ''remedio''"
  by (simp add: tutu_def calcularStatus_def horas_ge_12)

section \<open>The daily reset\<close>

lemma getDate_same_day: "diaCivil tza t' = diaCivil tza t \<Longrightarrow> getDate tza t' = getDate tza t"
  by (simp add: diaCivil_def getDate_def DateFromTime_def)

lemma ultimoReset_verificarReset: "ultimoReset (verificarReset tza t st) = getDate tza t"
  by (simp add: verificarReset_def Let_def)

lemma verificarReset_noop: "getDate tza t = ultimoReset st \<Longrightarrow> verificarReset tza t st = st"
  by (simp add: verificarReset_def Let_def)

section \<open>Updates of one record\<close>

lemma atualizar_comida:
  "atualizar a n ''comida'' tx p =
     (if comida p < maxComida p
      then p\<lparr>comida := comida p + 1, ultimoHorarioComida := Some a\<rparr> else p)"
  by (simp add: atualizar_def)

lemma atualizar_remedio:
  "atualizar a n ''remedio'' tx p =
     (if temRemedio p \<and> menor (remedio p) (maxRemedio p)
      then p\<lparr>remedio := map_option (\<lambda>r. r + 1) (remedio p), ultimoHorarioRemedio := Some a\<rparr>
      else p)"
  by (simp add: atualizar_def)

lemma atualizar_nota:
  "atualizar a n ''nota'' tx p =
     (case textoAparado tx of
        None \<Rightarrow> p
      | Some s \<Rightarrow> p\<lparr>notas := notas p @ [\<lparr>texto = s, data = ToLocaleString n\<rparr>]\<rparr>)"
  by (simp add: atualizar_def split: option.splits)

lemma atualizar_outro:
  "tp \<noteq> ''comida'' \<Longrightarrow> tp \<noteq> ''remedio'' \<Longrightarrow> tp \<noteq> ''nota'' \<Longrightarrow> atualizar a n tp tx p = p"
  by (simp add: atualizar_def)

lemma atualizar_casos:
  "tp = ''comida'' \<or> tp = ''remedio'' \<or> tp = ''nota'' \<or>
   (tp \<noteq> ''comida'' \<and> tp \<noteq> ''remedio'' \<and> tp \<noteq> ''nota'')"
  by blast

lemma comida_atualizar:
  "comida p \<le> maxComida p \<Longrightarrow>
   comida (atualizar a n tp tx p) \<le> maxComida (atualizar a n tp tx p)"
  using atualizar_casos [of tp]
  by (auto simp: atualizar_comida atualizar_remedio atualizar_nota atualizar_outro
           split: option.splits)

lemma maxComida_atualizar: "maxComida (atualizar a n tp tx p) = maxComida p"
  using atualizar_casos [of tp]
  by (auto simp: atualizar_comida atualizar_remedio atualizar_nota atualizar_outro
           split: option.splits)

lemma comida_atualizacoes:
  "comida p \<le> maxComida p \<Longrightarrow> comida (atualizacoes as p) \<le> maxComida (atualizacoes as p)"
  by (induction as p rule: atualizacoes.induct) (simp_all add: comida_atualizar)

lemma maxComida_atualizacoes: "maxComida (atualizacoes as p) = maxComida p"
  by (induction as p rule: atualizacoes.induct) (simp_all add: maxComida_atualizar)

lemma obter_Some: "ps a = Some p \<Longrightarrow> obter ps a = Registro p"
  by (simp add: obter_def)

lemma POST_Registro:
  "pets (verificarReset tza r st) animal = Some p \<Longrightarrow>
   POST tza r a n (Some (animal, tp, tx)) st =
     ((verificarReset tza r st)\<lparr>pets := (pets (verificarReset tza r st))
         (animal \<mapsto> atualizar a n tp tx p)\<rparr>,
      Ok200 (atualizar a n tp tx p))"
  by (simp add: POST_def Let_def obter_Some)

lemma estado_pets_idem: "pets st a = Some p \<Longrightarrow> st\<lparr>pets := (pets st)(a \<mapsto> p)\<rparr> = st"
  by (simp add: fun_upd_idem)

text \<open>
  C2. Over every finite sequence of updates of a record (of feed actions in particular)
  that starts with \<^verbatim>\<open>comida\<close> at most \<^verbatim>\<open>maxComida\<close>, \<^verbatim>\<open>comida\<close> never exceeds
  \<^verbatim>\<open>maxComida\<close>. When \<^verbatim>\<open>comida = maxComida\<close>, a further feed action leaves the whole
  record as it is, and the \<^verbatim>\<open>POST\<close> call is no error: it answers with status 200 and
  the unchanged record, and the store is unchanged (the day being that of the last reset).
\<close>

theorem comida_capped:
  "(comida p \<le> maxComida p \<longrightarrow>
      comida (atualizacoes as p) \<le> maxComida p \<and> maxComida (atualizacoes as p) = maxComida p) \<and>
   (comida p = maxComida p \<longrightarrow> atualizar a n ''comida'' tx p = p) \<and>
   (pets st animal = Some p \<and> getDate tza r = ultimoReset st \<and> comida p = maxComida p \<longrightarrow>
      POST tza r a n (Some (animal, ''comida'', tx)) st = (st, Ok200 p))"
proof (intro conjI impI)
  assume "comida p \<le> maxComida p"
  then show "comida (atualizacoes as p) \<le> maxComida p"
    using comida_atualizacoes [of p as] by (simp add: maxComida_atualizacoes)
next
  show "maxComida (atualizacoes as p) = maxComida p"
    by (rule maxComida_atualizacoes)
next
  assume "comida p = maxComida p"
  then show "atualizar a n ''comida'' tx p = p"
    by (simp add: atualizar_comida)
next
  assume h: "pets st animal = Some p \<and> getDate tza r = ultimoReset st \<and> comida p = maxComida p"
  then have "verificarReset tza r st = st"
    by (simp add: verificarReset_noop)
  with h show "POST tza r a n (Some (animal, ''comida'', tx)) st = (st, Ok200 p)"
    by (simp add: POST_Registro atualizar_comida estado_pets_idem)
qed


theorem comida_capped_witness:
  "comida (tutu\<lparr>comida := 3\<rparr>) \<le> maxComida (tutu\<lparr>comida := 3\<rparr>) \<and>
   comida (atualizacoes [(0, 0, ''comida'', None), (1, 1, ''comida'', None)] (tutu\<lparr>comida := 3\<rparr>))
     \<le> maxComida (tutu\<lparr>comida := 3\<rparr>) \<and>
   comida (tutu\<lparr>comida := 3\<rparr>) = maxComida (tutu\<lparr>comida := 3\<rparr>) \<and>
   atualizar 0 0 ''comida'' None (tutu\<lparr>comida := 3\<rparr>) = tutu\<lparr>comida := 3\<rparr> \<and>
   pets \<lparr>pets = [''tutu'' \<mapsto> tutu\<lparr>comida := 3\<rparr>], ultimoReset = 1\<rparr> ''tutu''
     = Some (tutu\<lparr>comida := 3\<rparr>) \<and>
   getDate utc 0 = ultimoReset \<lparr>pets = [''tutu'' \<mapsto> tutu\<lparr>comida := 3\<rparr>], ultimoReset = 1\<rparr> \<and>
   POST utc 0 0 0 (Some (''tutu'', ''comida'', None))
     \<lparr>pets = [''tutu'' \<mapsto> tutu\<lparr>comida := 3\<rparr>], ultimoReset = 1\<rparr> =
     (\<lparr>pets = [''tutu'' \<mapsto> tutu\<lparr>comida := 3\<rparr>], ultimoReset = 1\<rparr>, Ok200 (tutu\<lparr>comida := 3\<rparr>))"
proof -
  let ?p = "tutu\<lparr>comida := 3\<rparr>"
  let ?as = "[(0, 0, ''comida'', None), (1, 1, ''comida'', None)]"
  let ?st = "\<lparr>pets = [''tutu'' \<mapsto> ?p], ultimoReset = 1\<rparr>"
  have h1: "comida ?p \<le> maxComida ?p"
    by (simp add: tutu_def)
  have h2: "comida ?p = maxComida ?p"
    by (simp add: tutu_def)
  have h3: "pets ?st ''tutu'' = Some ?p"
    by simp
  have "getDate utc 0 = 1"
    by code_simp
  then have h4: "getDate utc 0 = ultimoReset ?st"
    by simp
  note T = comida_capped [of ?p ?as 0 0 None ?st "''tutu''" utc 0]
  from T h1 have c1: "comida (atualizacoes ?as ?p) \<le> maxComida ?p"
    by blast
  from T h2 have c2: "atualizar 0 0 ''comida'' None ?p = ?p"
    by blast
  from T h2 h3 h4 have c3: "POST utc 0 0 0 (Some (''tutu'', ''comida'', None)) ?st = (?st, Ok200 ?p)"
    by blast
  show ?thesis
    by (intro conjI h1 c1 h2 c2 h3 h4 c3)
qed

section \<open>Medication only for pets that take it\<close>

lemma temRemedio_atualizar: "temRemedio (atualizar a n tp tx p) = temRemedio p"
  using atualizar_casos [of tp]
  by (auto simp: atualizar_comida atualizar_remedio atualizar_nota atualizar_outro
           split: option.splits if_splits)

lemma remedio_atualizar:
  "\<not> temRemedio p \<Longrightarrow>
   remedio (atualizar a n tp tx p) = remedio p \<and>
   ultimoHorarioRemedio (atualizar a n tp tx p) = ultimoHorarioRemedio p"
  using atualizar_casos [of tp]
  by (auto simp: atualizar_comida atualizar_remedio atualizar_nota atualizar_outro
           split: option.splits)

lemma remedio_zerarContadores:
  "\<not> temRemedio p \<Longrightarrow>
   temRemedio (zerarContadores p) = temRemedio p \<and>
   remedio (zerarContadores p) = remedio p \<and>
   ultimoHorarioRemedio (zerarContadores p) = ultimoHorarioRemedio p"
  by (simp add: zerarContadores_def)

lemma remedio_aplicar:
  "\<not> temRemedio p \<Longrightarrow>
   \<not> temRemedio (aplicar e p) \<and> remedio (aplicar e p) = remedio p \<and>
   ultimoHorarioRemedio (aplicar e p) = ultimoHorarioRemedio p"
  by (cases e) (simp_all add: temRemedio_atualizar remedio_atualizar remedio_zerarContadores)

lemma remedio_historico:
  "\<not> temRemedio p \<Longrightarrow>
   \<not> temRemedio (historico es p) \<and> remedio (historico es p) = remedio p \<and>
   ultimoHorarioRemedio (historico es p) = ultimoHorarioRemedio p"
proof (induction es arbitrary: p)
  case Nil
  then show ?case by simp
next
  case (Cons e es)
  from Cons.prems have step: "\<not> temRemedio (aplicar e p)"
    and keep: "remedio (aplicar e p) = remedio p"
      "ultimoHorarioRemedio (aplicar e p) = ultimoHorarioRemedio p"
    using remedio_aplicar [of p e] by simp_all
  from Cons.IH [OF step] keep show ?case by simp
qed

text \<open>
  C5. For a record with \<^verbatim>\<open>temRemedio = false\<close>, after any history of updates and daily
  resets, a medicate action changes nothing; \<^verbatim>\<open>remedio\<close> and \<^verbatim>\<open>ultimoHorarioRemedio\<close>
  still have their first values (no event of the history has changed or set them); and
  \<^verbatim>\<open>calcularStatus\<close> never answers \<open>remedio\<close>, at any time.
\<close>

theorem remedio_needs_temRemedio:
  assumes "\<not> temRemedio p"
  shows "atualizar a n ''remedio'' tx (historico es p) = historico es p \<and>
         remedio (historico es p) = remedio p \<and>
         ultimoHorarioRemedio (historico es p) = ultimoHorarioRemedio p \<and>
         tipo (calcularStatus (historico es p) agora) \<noteq> ''remedio''"
proof -
  from remedio_historico [OF assms, of es]
  have nt: "\<not> temRemedio (historico es p)"
    and keep: "remedio (historico es p) = remedio p"
      "ultimoHorarioRemedio (historico es p) = ultimoHorarioRemedio p"
    by simp_all
  from nt have "atualizar a n ''remedio'' tx (historico es p) = historico es p"
    by (simp add: atualizar_remedio)
  moreover from nt have "tipo (calcularStatus (historico es p) agora) \<noteq> ''remedio''"
    by (simp add: tipo_calcularStatus remedioAtrasado_def)
  ultimately show ?thesis using keep by simp
qed

theorem remedio_needs_temRemedio_witness:
  "\<not> temRemedio noah \<and>
   atualizar 5 5 ''remedio'' None
     (historico [Atualizacao 1 1 ''remedio'' None, Zeragem, Atualizacao 2 2 ''comida'' None] noah) =
     historico [Atualizacao 1 1 ''remedio'' None, Zeragem, Atualizacao 2 2 ''comida'' None] noah \<and>
   remedio (historico [Atualizacao 1 1 ''remedio'' None, Zeragem,
                       Atualizacao 2 2 ''comida'' None] noah) = remedio noah \<and>
   ultimoHorarioRemedio (historico [Atualizacao 1 1 ''remedio'' None, Zeragem,
                       Atualizacao 2 2 ''comida'' None] noah) = ultimoHorarioRemedio noah \<and>
   tipo (calcularStatus (historico [Atualizacao 1 1 ''remedio'' None, Zeragem,
                       Atualizacao 2 2 ''comida'' None] noah) 99999999) \<noteq> ''remedio''"
proof -
  have h: "\<not> temRemedio noah"
    by (simp add: noah_def)
  show ?thesis
    using h remedio_needs_temRemedio [OF h] by blast
qed

section \<open>Notes\<close>

lemma trim_Nil_iff: "(trim t = []) = list_all espaco t"
  unfolding list_all_iff
proof
  assume "trim t = []"
  then have "dropWhile espaco (rev (dropWhile espaco t)) = []"
    by (simp add: trim_def)
  then have all: "\<forall>c\<in>set (dropWhile espaco t). espaco c"
    by (simp add: dropWhile_eq_Nil_conv)
  have "dropWhile espaco t = []"
  proof (rule ccontr)
    assume ne: "dropWhile espaco t \<noteq> []"
    then have "\<not> espaco (hd (dropWhile espaco t))"
      by (rule hd_dropWhile)
    moreover from ne have "hd (dropWhile espaco t) \<in> set (dropWhile espaco t)"
      by (rule hd_in_set)
    ultimately show False using all by blast
  qed
  then show "\<forall>c\<in>set t. espaco c"
    by (simp add: dropWhile_eq_Nil_conv)
next
  assume "\<forall>c\<in>set t. espaco c"
  then have e: "dropWhile espaco t = []"
    by (simp add: dropWhile_eq_Nil_conv)
  show "trim t = []"
    unfolding trim_def e by simp
qed

lemma notas_atualizar: "\<exists>ys. notas (atualizar a n tp tx p) = notas p @ ys"
  using atualizar_casos [of tp]
  by (auto simp: atualizar_comida atualizar_remedio atualizar_nota atualizar_outro
           split: option.splits if_splits)

lemma notas_zerarContadores: "notas (zerarContadores p) = notas p"
  by (simp add: zerarContadores_def Let_def)

lemma notas_aplicar: "\<exists>ys. notas (aplicar e p) = notas p @ ys"
  by (cases e) (simp_all add: notas_atualizar notas_zerarContadores)

lemma notas_historico: "\<exists>ys. notas (historico es p) = notas p @ ys"
proof (induction es arbitrary: p)
  case Nil
  show ?case by simp
next
  case (Cons e es)
  obtain ys where 1: "notas (aplicar e p) = notas p @ ys"
    using notas_aplicar by blast
  obtain zs where 2: "notas (historico es (aplicar e p)) = notas (aplicar e p) @ zs"
    using Cons.IH by blast
  from 1 2 have "notas (historico (e # es) p) = notas p @ (ys @ zs)"
    by simp
  then show ?case by blast
qed

lemma notas_nota_Some:
  "trim t \<noteq> [] \<Longrightarrow>
   notas (atualizar a n ''nota'' (Some t) p) =
     notas p @ [\<lparr>texto = trim t, data = ToLocaleString n\<rparr>]"
  by (simp add: atualizar_nota textoAparado_def)

lemma notas_anotacoes:
  "list_all (\<lambda>x. trim (snd (snd x)) \<noteq> []) xs \<Longrightarrow>
   notas (atualizacoes (map anotar xs) p) = notas p @ map entrada xs"
proof (induction xs arbitrary: p)
  case Nil
  show ?case by simp
next
  case (Cons x xs)
  obtain a n t where x: "x = (a, n, t)"
    by (cases x) auto
  from Cons.prems x have t: "trim t \<noteq> []" and rest: "list_all (\<lambda>x. trim (snd (snd x)) \<noteq> []) xs"
    by simp_all
  have "notas (atualizacoes (map anotar (x # xs)) p) =
        notas (atualizacoes (map anotar xs) (atualizar a n ''nota'' (Some t) p))"
    by (simp add: x anotar_def)
  also have "\<dots> = notas (atualizar a n ''nota'' (Some t) p) @ map entrada xs"
    by (rule Cons.IH [OF rest])
  also have "\<dots> = notas p @ map entrada (x # xs)"
    by (simp add: notas_nota_Some [OF t] x entrada_def)
  finally show ?case .
qed

lemma trim_ex1: "trim '' ok '' = ''ok''"
  by code_simp

lemma trim_ex2: "trim ''feito'' = ''feito''"
  by code_simp

text \<open>
  C6. A note request whose text, trimmed, is not empty appends exactly one entry at the
  end of \<^verbatim>\<open>notas\<close>: the trimmed text with the rendering of the clock reading taken at
  the push. A text made of white space only (the empty text included) and an absent text
  leave the record as it is. Appending N such notes yields the old notes followed by
  those N entries in the order of the requests. Over any history of updates and daily
  resets the old notes stay a prefix of \<^verbatim>\<open>notas\<close>: no entry is deleted or changed.
\<close>

theorem notas_append_only:
  "(trim t \<noteq> [] \<longrightarrow>
      notas (atualizar a n ''nota'' (Some t) p) =
        notas p @ [\<lparr>texto = trim t, data = ToLocaleString n\<rparr>]) \<and>
   (list_all espaco t \<longrightarrow> atualizar a n ''nota'' (Some t) p = p) \<and>
   atualizar a n ''nota'' None p = p \<and>
   (list_all (\<lambda>x. trim (snd (snd x)) \<noteq> []) xs \<longrightarrow>
      notas (atualizacoes (map anotar xs) p) = notas p @ map entrada xs) \<and>
   (\<exists>ys. notas (historico es p) = notas p @ ys)"
proof (intro conjI impI)
  assume "trim t \<noteq> []"
  then show "notas (atualizar a n ''nota'' (Some t) p) =
        notas p @ [\<lparr>texto = trim t, data = ToLocaleString n\<rparr>]"
    by (rule notas_nota_Some)
next
  assume "list_all espaco t"
  then have "trim t = []"
    by (simp add: trim_Nil_iff)
  then show "atualizar a n ''nota'' (Some t) p = p"
    by (simp add: atualizar_nota textoAparado_def)
next
  show "atualizar a n ''nota'' None p = p"
    by (simp add: atualizar_nota textoAparado_def)
next
  assume "list_all (\<lambda>x. trim (snd (snd x)) \<noteq> []) xs"
  then show "notas (atualizacoes (map anotar xs) p) = notas p @ map entrada xs"
    by (rule notas_anotacoes)
next
  show "\<exists>ys. notas (historico es p) = notas p @ ys"
    by (rule notas_historico)
qed

theorem notas_append_only_witness:
  "trim '' ok '' \<noteq> [] \<and>
   notas (atualizar 1 2 ''nota'' (Some '' ok '') tutu) =
     notas tutu @ [\<lparr>texto = trim '' ok '', data = ToLocaleString 2\<rparr>] \<and>
   list_all espaco ''  '' \<and>
   atualizar 1 2 ''nota'' (Some ''  '') tutu = tutu \<and>
   list_all (\<lambda>x. trim (snd (snd x)) \<noteq> []) [(1, 2, '' ok ''), (3, 4, ''feito'')] \<and>
   notas (atualizacoes (map anotar [(1, 2, '' ok ''), (3, 4, ''feito'')]) tutu) =
     notas tutu @ map entrada [(1, 2, '' ok ''), (3, 4, ''feito'')]"
proof -
  have h1: "trim '' ok '' \<noteq> []"
    by (simp add: trim_ex1)
  have h2: "list_all espaco ''  ''"
    by (simp add: espaco_def)
  have h3: "list_all (\<lambda>x. trim (snd (snd x)) \<noteq> []) [(1, 2, '' ok ''), (3, 4, ''feito'')]"
    by (simp add: trim_ex1 trim_ex2)
  from h1 notas_append_only [of "'' ok ''" 1 2 tutu]
  have c1: "notas (atualizar 1 2 ''nota'' (Some '' ok '') tutu) =
     notas tutu @ [\<lparr>texto = trim '' ok '', data = ToLocaleString 2\<rparr>]"
    by blast
  from h2 notas_append_only [of "''  ''" 1 2 tutu]
  have c2: "atualizar 1 2 ''nota'' (Some ''  '') tutu = tutu"
    by blast
  from h3 notas_append_only [of _ _ _ tutu "[(1, 2, '' ok ''), (3, 4, ''feito'')]"]
  have c3: "notas (atualizacoes (map anotar [(1, 2, '' ok ''), (3, 4, ''feito'')]) tutu) =
     notas tutu @ map entrada [(1, 2, '' ok ''), (3, 4, ''feito'')]"
    by blast
  show ?thesis
    by (intro conjI h1 c1 h2 c2 h3 c3)
qed

section \<open>The clock readings of one call\<close>

lemma ultimoReset_POST: "ultimoReset (fst (POST tza r a n body st)) = getDate tza r"
  by (simp add: POST_def Let_def ultimoReset_verificarReset
           split: option.splits prod.splits valor.splits)

lemma POST_verificarReset:
  "verificarReset tza r' st = verificarReset tza r st \<Longrightarrow>
   POST tza r' a n body st = POST tza r a n body st"
  by (simp add: POST_def Let_def)

text \<open>
  C4, as amended. One \<^verbatim>\<open>POST\<close> call reads the clock up to three times, and each
  reading has its own use. On a record found after the reset check, a feed or medicate
  request increments the counter and writes the reading behind \<^verbatim>\<open>agoraISO\<close>, and no
  other, to \<^verbatim>\<open>ultimoHorarioComida\<close> or \<^verbatim>\<open>ultimoHorarioRemedio\<close>; a note request
  appends the rendering of the reading taken at the push, and no other. The reading of
  the reset check acts through \<^verbatim>\<open>verificarReset\<close> alone: two readings that leave the
  same state after the check give the same call.
\<close>

theorem POST_clock_readings:
  assumes "pets (verificarReset tza r st) animal = Some p"
  shows
    "POST tza r a n (Some (animal, ''comida'', tx)) st =
       (if comida p < maxComida p
        then ((verificarReset tza r st)
                \<lparr>pets := (pets (verificarReset tza r st))
                   (animal \<mapsto> p\<lparr>comida := comida p + 1, ultimoHorarioComida := Some a\<rparr>)\<rparr>,
              Ok200 (p\<lparr>comida := comida p + 1, ultimoHorarioComida := Some a\<rparr>))
        else (verificarReset tza r st, Ok200 p)) \<and>
     POST tza r a n (Some (animal, ''remedio'', tx)) st =
       (if temRemedio p \<and> menor (remedio p) (maxRemedio p)
        then ((verificarReset tza r st)
                \<lparr>pets := (pets (verificarReset tza r st))
                   (animal \<mapsto> p\<lparr>remedio := map_option (\<lambda>x. x + 1) (remedio p),
                                ultimoHorarioRemedio := Some a\<rparr>)\<rparr>,
              Ok200 (p\<lparr>remedio := map_option (\<lambda>x. x + 1) (remedio p),
                       ultimoHorarioRemedio := Some a\<rparr>))
        else (verificarReset tza r st, Ok200 p)) \<and>
     POST tza r a n (Some (animal, ''nota'', tx)) st =
       (case textoAparado tx of
          None \<Rightarrow> (verificarReset tza r st, Ok200 p)
        | Some s \<Rightarrow>
            ((verificarReset tza r st)
               \<lparr>pets := (pets (verificarReset tza r st))
                  (animal \<mapsto> p\<lparr>notas := notas p @ [\<lparr>texto = s, data = ToLocaleString n\<rparr>]\<rparr>)\<rparr>,
             Ok200 (p\<lparr>notas := notas p @ [\<lparr>texto = s, data = ToLocaleString n\<rparr>]\<rparr>))) \<and>
     (verificarReset tza r' st = verificarReset tza r st \<longrightarrow>
        POST tza r' a n body st = POST tza r a n body st)"
proof (intro conjI impI)
  show "POST tza r a n (Some (animal, ''comida'', tx)) st =
       (if comida p < maxComida p
        then ((verificarReset tza r st)
                \<lparr>pets := (pets (verificarReset tza r st))
                   (animal \<mapsto> p\<lparr>comida := comida p + 1, ultimoHorarioComida := Some a\<rparr>)\<rparr>,
              Ok200 (p\<lparr>comida := comida p + 1, ultimoHorarioComida := Some a\<rparr>))
        else (verificarReset tza r st, Ok200 p))"
    using assms by (simp add: POST_Registro atualizar_comida estado_pets_idem)
next
  show "POST tza r a n (Some (animal, ''remedio'', tx)) st =
       (if temRemedio p \<and> menor (remedio p) (maxRemedio p)
        then ((verificarReset tza r st)
                \<lparr>pets := (pets (verificarReset tza r st))
                   (animal \<mapsto> p\<lparr>remedio := map_option (\<lambda>x. x + 1) (remedio p),
                                ultimoHorarioRemedio := Some a\<rparr>)\<rparr>,
              Ok200 (p\<lparr>remedio := map_option (\<lambda>x. x + 1) (remedio p),
                       ultimoHorarioRemedio := Some a\<rparr>))
        else (verificarReset tza r st, Ok200 p))"
    using assms by (simp add: POST_Registro atualizar_remedio estado_pets_idem)
next
  show "POST tza r a n (Some (animal, ''nota'', tx)) st =
       (case textoAparado tx of
          None \<Rightarrow> (verificarReset tza r st, Ok200 p)
        | Some s \<Rightarrow>
            ((verificarReset tza r st)
               \<lparr>pets := (pets (verificarReset tza r st))
                  (animal \<mapsto> p\<lparr>notas := notas p @ [\<lparr>texto = s, data = ToLocaleString n\<rparr>]\<rparr>)\<rparr>,
             Ok200 (p\<lparr>notas := notas p @ [\<lparr>texto = s, data = ToLocaleString n\<rparr>]\<rparr>)))"
    using assms by (simp add: POST_Registro atualizar_nota estado_pets_idem split: option.splits)
next
  assume "verificarReset tza r' st = verificarReset tza r st"
  then show "POST tza r' a n body st = POST tza r a n body st"
    by (rule POST_verificarReset)
qed

theorem POST_clock_readings_witness:
  "pets (verificarReset utc 1736985599999
           \<lparr>pets = [''tutu'' \<mapsto> tutu\<lparr>comida := 1, ultimoHorarioComida := Some 1736942400000\<rparr>],
            ultimoReset = 15\<rparr>) ''tutu'' =
     Some (tutu\<lparr>comida := 1, ultimoHorarioComida := Some 1736942400000\<rparr>) \<and>
   snd (POST utc 1736985599999 1736985600000 1736985601000 (Some (''tutu'', ''comida'', None))
          \<lparr>pets = [''tutu'' \<mapsto> tutu\<lparr>comida := 1, ultimoHorarioComida := Some 1736942400000\<rparr>],
           ultimoReset = 15\<rparr>) =
     Ok200 (tutu\<lparr>comida := 2, ultimoHorarioComida := Some 1736985600000\<rparr>) \<and>
   verificarReset utc 1736942400000
     \<lparr>pets = [''tutu'' \<mapsto> tutu\<lparr>comida := 1, ultimoHorarioComida := Some 1736942400000\<rparr>],
      ultimoReset = 15\<rparr> =
   verificarReset utc 1736985599999
     \<lparr>pets = [''tutu'' \<mapsto> tutu\<lparr>comida := 1, ultimoHorarioComida := Some 1736942400000\<rparr>],
      ultimoReset = 15\<rparr> \<and>
   POST utc 1736942400000 1736985600000 1736985601000 (Some (''tutu'', ''comida'', None))
     \<lparr>pets = [''tutu'' \<mapsto> tutu\<lparr>comida := 1, ultimoHorarioComida := Some 1736942400000\<rparr>],
      ultimoReset = 15\<rparr> =
   POST utc 1736985599999 1736985600000 1736985601000 (Some (''tutu'', ''comida'', None))
     \<lparr>pets = [''tutu'' \<mapsto> tutu\<lparr>comida := 1, ultimoHorarioComida := Some 1736942400000\<rparr>],
      ultimoReset = 15\<rparr>"
proof -
  let ?p = "tutu\<lparr>comida := 1, ultimoHorarioComida := Some 1736942400000\<rparr>"
  let ?st = "\<lparr>pets = [''tutu'' \<mapsto> ?p], ultimoReset = 15\<rparr>"
  have d1: "getDate utc 1736985599999 = 15"
    by code_simp
  have d2: "getDate utc 1736942400000 = 15"
    by code_simp
  have n1: "verificarReset utc 1736985599999 ?st = ?st"
    by (rule verificarReset_noop) (simp add: d1)
  have n2: "verificarReset utc 1736942400000 ?st = ?st"
    by (rule verificarReset_noop) (simp add: d2)
  have h1: "pets (verificarReset utc 1736985599999 ?st) ''tutu'' = Some ?p"
    by (simp add: n1)
  have h2: "verificarReset utc 1736942400000 ?st = verificarReset utc 1736985599999 ?st"
    by (simp only: n1 n2)
  have lt: "comida ?p < maxComida ?p"
    by (simp add: tutu_def)
  note T = POST_clock_readings [OF h1, of 1736985600000 1736985601000 None 1736942400000
      "Some (''tutu'', ''comida'', None)"]
  from T lt have c1: "snd (POST utc 1736985599999 1736985600000 1736985601000
       (Some (''tutu'', ''comida'', None)) ?st) =
     Ok200 (tutu\<lparr>comida := 2, ultimoHorarioComida := Some 1736985600000\<rparr>)"
    by (simp add: tutu_def)
  from T h2 have c2: "POST utc 1736942400000 1736985600000 1736985601000
       (Some (''tutu'', ''comida'', None)) ?st =
     POST utc 1736985599999 1736985600000 1736985601000 (Some (''tutu'', ''comida'', None)) ?st"
    by blast
  show ?thesis
    by (intro conjI h1 c1 h2 c2)
qed

text \<open>
  The claim as written has one reading per call. Tutu has been fed once on day 15. A
  feed request whose reset check reads the last millisecond of day 15 and whose
  \<^verbatim>\<open>agoraISO\<close> reads midnight of day 16 is answered with \<^verbatim>\<open>comida = 2\<close> and the time
  of day 16. One reading for the whole call gives \<^verbatim>\<open>comida = 2\<close> with the time of day
  15, or \<^verbatim>\<open>comida = 1\<close> after a reset: no single reading gives the answer of the call.
  A note request checked on day 15 and pushed on day 16 is answered with the counters of
  day 15 and the date of day 16, where one reading of day 16 resets the counters.
\<close>

lemma POST_outcomes:
  "snd (POST utc 1736985599999 1736985600000 1736985600000 (Some (''tutu'', ''comida'', None))
         \<lparr>pets = [''tutu'' \<mapsto> tutu\<lparr>comida := 1, ultimoHorarioComida := Some 1736942400000\<rparr>],
          ultimoReset = 15\<rparr>) =
     Ok200 (tutu\<lparr>comida := 2, ultimoHorarioComida := Some 1736985600000\<rparr>) \<and>
   snd (POST utc 1736985599999 1736985599999 1736985599999 (Some (''tutu'', ''comida'', None))
         \<lparr>pets = [''tutu'' \<mapsto> tutu\<lparr>comida := 1, ultimoHorarioComida := Some 1736942400000\<rparr>],
          ultimoReset = 15\<rparr>) =
     Ok200 (tutu\<lparr>comida := 2, ultimoHorarioComida := Some 1736985599999\<rparr>) \<and>
   snd (POST utc 1736985600000 1736985600000 1736985600000 (Some (''tutu'', ''comida'', None))
         \<lparr>pets = [''tutu'' \<mapsto> tutu\<lparr>comida := 1, ultimoHorarioComida := Some 1736942400000\<rparr>],
          ultimoReset = 15\<rparr>) =
     Ok200 (tutu\<lparr>comida := 1, ultimoHorarioComida := Some 1736985600000\<rparr>) \<and>
   snd (POST utc 1736985599999 1736985600000 1736985601000 (Some (''tutu'', ''nota'', Some ''ok''))
         \<lparr>pets = [''tutu'' \<mapsto> tutu\<lparr>comida := 1, ultimoHorarioComida := Some 1736942400000\<rparr>],
          ultimoReset = 15\<rparr>) =
     Ok200 (tutu\<lparr>comida := 1, ultimoHorarioComida := Some 1736942400000,
                 notas := [\<lparr>texto = ''ok'', data = ToLocaleString 1736985601000\<rparr>]\<rparr>) \<and>
   snd (POST utc 1736985601000 1736985601000 1736985601000 (Some (''tutu'', ''nota'', Some ''ok''))
         \<lparr>pets = [''tutu'' \<mapsto> tutu\<lparr>comida := 1, ultimoHorarioComida := Some 1736942400000\<rparr>],
          ultimoReset = 15\<rparr>) =
     Ok200 (tutu\<lparr>notas := [\<lparr>texto = ''ok'', data = ToLocaleString 1736985601000\<rparr>]\<rparr>)"
  by code_simp

lemma POST_no_single_reading:
  "\<not> (\<exists>x. snd (POST utc 1736985599999 1736985600000 1736985600000
                 (Some (''tutu'', ''comida'', None))
                 \<lparr>pets = [''tutu'' \<mapsto> tutu\<lparr>comida := 1, ultimoHorarioComida := Some 1736942400000\<rparr>],
                  ultimoReset = 15\<rparr>) =
             snd (POST utc x x x (Some (''tutu'', ''comida'', None))
                 \<lparr>pets = [''tutu'' \<mapsto> tutu\<lparr>comida := 1, ultimoHorarioComida := Some 1736942400000\<rparr>],
                  ultimoReset = 15\<rparr>))"
proof
  let ?p = "tutu\<lparr>comida := 1, ultimoHorarioComida := Some 1736942400000\<rparr>"
  let ?st = "\<lparr>pets = [''tutu'' \<mapsto> ?p], ultimoReset = 15\<rparr>"
  let ?body = "Some (''tutu'', ''comida'', None)"
  assume "\<exists>x. snd (POST utc 1736985599999 1736985600000 1736985600000 ?body ?st) =
              snd (POST utc x x x ?body ?st)"
  then obtain x where x: "snd (POST utc 1736985599999 1736985600000 1736985600000 ?body ?st) =
              snd (POST utc x x x ?body ?st)"
    by blast
  have l: "snd (POST utc 1736985599999 1736985600000 1736985600000 ?body ?st) =
           Ok200 (tutu\<lparr>comida := 2, ultimoHorarioComida := Some 1736985600000\<rparr>)"
    by code_simp
  have r: "\<exists>q. snd (POST utc x x x ?body ?st) = Ok200 q \<and>
               (ultimoHorarioComida q = Some x \<or> ultimoHorarioComida q = Some 1736942400000
                  \<or> ultimoHorarioComida q = None)"
    by (simp add: POST_def Let_def verificarReset_def obter_def atualizar_comida
          zerarContadores_def tutu_def)
  from x l r have "x = 1736985600000"
    by auto
  moreover have "snd (POST utc 1736985600000 1736985600000 1736985600000 ?body ?st) =
     Ok200 (tutu\<lparr>comida := 1, ultimoHorarioComida := Some 1736985600000\<rparr>)"
    by code_simp
  ultimately show False
    using x l by (simp add: tutu_def)
qed

theorem POST_single_reading_counterexample:
  "(snd (POST utc 1736985599999 1736985600000 1736985600000 (Some (''tutu'', ''comida'', None))
         \<lparr>pets = [''tutu'' \<mapsto> tutu\<lparr>comida := 1, ultimoHorarioComida := Some 1736942400000\<rparr>],
          ultimoReset = 15\<rparr>) =
     Ok200 (tutu\<lparr>comida := 2, ultimoHorarioComida := Some 1736985600000\<rparr>) \<and>
   snd (POST utc 1736985599999 1736985599999 1736985599999 (Some (''tutu'', ''comida'', None))
         \<lparr>pets = [''tutu'' \<mapsto> tutu\<lparr>comida := 1, ultimoHorarioComida := Some 1736942400000\<rparr>],
          ultimoReset = 15\<rparr>) =
     Ok200 (tutu\<lparr>comida := 2, ultimoHorarioComida := Some 1736985599999\<rparr>) \<and>
   snd (POST utc 1736985600000 1736985600000 1736985600000 (Some (''tutu'', ''comida'', None))
         \<lparr>pets = [''tutu'' \<mapsto> tutu\<lparr>comida := 1, ultimoHorarioComida := Some 1736942400000\<rparr>],
          ultimoReset = 15\<rparr>) =
     Ok200 (tutu\<lparr>comida := 1, ultimoHorarioComida := Some 1736985600000\<rparr>) \<and>
   snd (POST utc 1736985599999 1736985600000 1736985601000 (Some (''tutu'', ''nota'', Some ''ok''))
         \<lparr>pets = [''tutu'' \<mapsto> tutu\<lparr>comida := 1, ultimoHorarioComida := Some 1736942400000\<rparr>],
          ultimoReset = 15\<rparr>) =
     Ok200 (tutu\<lparr>comida := 1, ultimoHorarioComida := Some 1736942400000,
                 notas := [\<lparr>texto = ''ok'', data = ToLocaleString 1736985601000\<rparr>]\<rparr>) \<and>
   snd (POST utc 1736985601000 1736985601000 1736985601000 (Some (''tutu'', ''nota'', Some ''ok''))
         \<lparr>pets = [''tutu'' \<mapsto> tutu\<lparr>comida := 1, ultimoHorarioComida := Some 1736942400000\<rparr>],
          ultimoReset = 15\<rparr>) =
     Ok200 (tutu\<lparr>notas := [\<lparr>texto = ''ok'', data = ToLocaleString 1736985601000\<rparr>]\<rparr>)) \<and>
   \<not> (\<exists>x. snd (POST utc 1736985599999 1736985600000 1736985600000
                 (Some (''tutu'', ''comida'', None))
                 \<lparr>pets = [''tutu'' \<mapsto> tutu\<lparr>comida := 1, ultimoHorarioComida := Some 1736942400000\<rparr>],
                  ultimoReset = 15\<rparr>) =
             snd (POST utc x x x (Some (''tutu'', ''comida'', None))
                 \<lparr>pets = [''tutu'' \<mapsto> tutu\<lparr>comida := 1, ultimoHorarioComida := Some 1736942400000\<rparr>],
                  ultimoReset = 15\<rparr>))"
  using POST_outcomes POST_no_single_reading by (rule conjI)

section \<open>Further calls on the same day\<close>

lemma ultimoReset_POSTs:
  "list_all (\<lambda>c. diaCivil tza (fst c) = diaCivil tza t) cs \<Longrightarrow> ultimoReset s = getDate tza t \<Longrightarrow>
   ultimoReset (POSTs tza cs s) = getDate tza t"
proof (induction cs arbitrary: s)
  case Nil
  then show ?case by simp
next
  case (Cons c cs)
  obtain r a n body where c: "c = (r, a, n, body)"
    by (cases c) auto
  from Cons.prems(1) c have day: "diaCivil tza r = diaCivil tza t"
    and rest: "list_all (\<lambda>c. diaCivil tza (fst c) = diaCivil tza t) cs"
    by simp_all
  have "ultimoReset (fst (POST tza r a n body s)) = getDate tza t"
    by (simp add: ultimoReset_POST getDate_same_day [OF day])
  from Cons.IH [OF rest this] show ?case
    by (simp add: c)
qed

text \<open>
  C8. After one \<^verbatim>\<open>verificarReset\<close> call, whatever \<^verbatim>\<open>POST\<close> calls the store serves on
  the same calendar day, a further \<^verbatim>\<open>verificarReset\<close> call on that day changes
  nothing: every record, with what the calls of the day did to it, and \<^verbatim>\<open>ultimoReset\<close>
  stay as they are. So a read of a pet and a read of the statuses on that day leave the
  state as it is, and a further \<^verbatim>\<open>POST\<close> call on that day changes the state by its own
  update only.
\<close>

theorem verificarReset_same_day_noop:
  assumes "diaCivil tza t' = diaCivil tza t"
    and "list_all (\<lambda>c. diaCivil tza (fst c) = diaCivil tza t) cs"
  shows "verificarReset tza t' (POSTs tza cs (verificarReset tza t st)) =
           POSTs tza cs (verificarReset tza t st) \<and>
         fst (GET_pet tza t' animal (POSTs tza cs (verificarReset tza t st))) =
           POSTs tza cs (verificarReset tza t st) \<and>
         fst (GET_status tza t' agora (POSTs tza cs (verificarReset tza t st))) =
           POSTs tza cs (verificarReset tza t st) \<and>
         (pets (POSTs tza cs (verificarReset tza t st)) animal' = Some p \<longrightarrow>
            fst (POST tza t' a n (Some (animal', tp, tx)) (POSTs tza cs (verificarReset tza t st))) =
              (POSTs tza cs (verificarReset tza t st))
                \<lparr>pets := (pets (POSTs tza cs (verificarReset tza t st)))
                           (animal' \<mapsto> atualizar a n tp tx p)\<rparr>)"
proof -
  let ?s = "POSTs tza cs (verificarReset tza t st)"
  have "ultimoReset ?s = getDate tza t"
    using assms(2) by (rule ultimoReset_POSTs) (rule ultimoReset_verificarReset)
  then have "getDate tza t' = ultimoReset ?s"
    by (simp add: getDate_same_day [OF assms(1)])
  then have noop: "verificarReset tza t' ?s = ?s"
    by (rule verificarReset_noop)
  have g: "fst (GET_pet tza t' animal ?s) = verificarReset tza t' ?s"
    by (simp add: GET_pet_def Let_def split: option.splits valor.splits)
  have gs: "fst (GET_status tza t' agora ?s) = verificarReset tza t' ?s"
    by (simp add: GET_status_def Let_def)
  have p: "fst (POST tza t' a n (Some (animal', tp, tx)) ?s) =
             ?s\<lparr>pets := (pets ?s)(animal' \<mapsto> atualizar a n tp tx p)\<rparr>"
    if "pets ?s animal' = Some p"
    using that by (simp add: POST_Registro noop)
  show ?thesis
  proof (intro conjI impI)
    show "verificarReset tza t' ?s = ?s"
      by (rule noop)
    show "fst (GET_pet tza t' animal ?s) = ?s"
      by (simp only: g noop)
    show "fst (GET_status tza t' agora ?s) = ?s"
      by (simp only: gs noop)
    show "fst (POST tza t' a n (Some (animal', tp, tx)) ?s) =
            ?s\<lparr>pets := (pets ?s)(animal' \<mapsto> atualizar a n tp tx p)\<rparr>"
      if "pets ?s animal' = Some p"
      using that by (rule p)
  qed
qed

theorem verificarReset_same_day_noop_witness:
  "diaCivil utc 1736935200000 = diaCivil utc 1736899200000 \<and>
   list_all (\<lambda>c. diaCivil utc (fst c) = diaCivil utc 1736899200000)
     [(1736902800000, 1736902800001, 1736902800002, Some (''tutu'', ''comida'', None))] \<and>
   getDate utc 1736899200000 \<noteq> ultimoReset (estadoInicial utc 0) \<and>
   map_option comida
     (pets (POSTs utc [(1736902800000, 1736902800001, 1736902800002,
                        Some (''tutu'', ''comida'', None))]
              (verificarReset utc 1736899200000 (estadoInicial utc 0))) ''tutu'') = Some 1 \<and>
   verificarReset utc 1736935200000
     (POSTs utc [(1736902800000, 1736902800001, 1736902800002, Some (''tutu'', ''comida'', None))]
        (verificarReset utc 1736899200000 (estadoInicial utc 0))) =
     POSTs utc [(1736902800000, 1736902800001, 1736902800002, Some (''tutu'', ''comida'', None))]
       (verificarReset utc 1736899200000 (estadoInicial utc 0))"
proof -
  let ?cs = "[(1736902800000, 1736902800001, 1736902800002, Some (''tutu'', ''comida'', None))]"
  have h1: "diaCivil utc 1736935200000 = diaCivil utc 1736899200000"
    by code_simp
  have d: "diaCivil utc 1736902800000 = diaCivil utc 1736899200000"
    by code_simp
  have h2: "list_all (\<lambda>c. diaCivil utc (fst c) = diaCivil utc 1736899200000) ?cs"
    by (simp add: d)
  have h3: "getDate utc 1736899200000 \<noteq> ultimoReset (estadoInicial utc 0)"
    by code_simp
  have h4: "map_option comida
     (pets (POSTs utc ?cs (verificarReset utc 1736899200000 (estadoInicial utc 0))) ''tutu'') = Some 1"
    by code_simp
  have c: "verificarReset utc 1736935200000
      (POSTs utc ?cs (verificarReset utc 1736899200000 (estadoInicial utc 0))) =
      POSTs utc ?cs (verificarReset utc 1736899200000 (estadoInicial utc 0))"
    by (rule conjunct1 [OF verificarReset_same_day_noop [OF h1 h2]])
  show ?thesis
    by (intro conjI h1 h2 h3 h4 c)
qed

section \<open>Unknown animals\<close>

lemma obter_None:
  "ps a = None \<Longrightarrow> a \<noteq> ''__proto__'' \<Longrightarrow> a \<notin> set funcoesHerdadas \<Longrightarrow> obter ps a = Indefinido"
  by (simp add: obter_def)

lemma POST_desconhecido:
  "pets (verificarReset tza r st) animal = None \<Longrightarrow> animal \<noteq> ''__proto__'' \<Longrightarrow>
   animal \<notin> set funcoesHerdadas \<Longrightarrow>
   POST tza r a n (Some (animal, tp, tx)) st = (verificarReset tza r st, Erro400 Animal_invalido)"
  by (simp add: POST_def Let_def obter_None)

lemma GET_pet_Registro:
  "pets (verificarReset tza r st) a = Some p \<Longrightarrow> a \<noteq> [] \<Longrightarrow>
   GET_pet tza r (Some a) st = (verificarReset tza r st, Ok200 p)"
  by (simp add: GET_pet_def Let_def obter_Some)

lemma GET_pet_desconhecido:
  "pets (verificarReset tza r st) a = None \<Longrightarrow> a \<noteq> ''__proto__'' \<Longrightarrow>
   a \<notin> set funcoesHerdadas \<Longrightarrow>
   GET_pet tza r (Some a) st = (verificarReset tza r st, Erro400 Animal_invalido)"
  by (simp add: GET_pet_def Let_def obter_None)

text \<open>
  C7 at an input where the code departs from it. The store has no animal named
  \<^verbatim>\<open>__proto__\<close> or \<^verbatim>\<open>constructor\<close>, but \<^verbatim>\<open>pets[animal]\<close> finds both on the prototype
  of the object literal, so the test \<^verbatim>\<open>!pet\<close> lets them through: a feed request and a
  read for \<^verbatim>\<open>__proto__\<close> are answered with status 200 and an empty object, not with
  the error for an invalid animal; a note request for it, and a read for
  \<^verbatim>\<open>constructor\<close>, end in an uncaught \<^verbatim>\<open>TypeError\<close>.
\<close>

theorem inherited_key_not_rejected:
  "pets (estadoInicial utc 0) ''__proto__'' = None \<and>
   snd (POST utc 0 0 0 (Some (''__proto__'', ''comida'', None)) (estadoInicial utc 0)) =
     Ok200_objeto_vazio \<and>
   snd (GET_pet utc 0 (Some ''__proto__'') (estadoInicial utc 0)) = Ok200_objeto_vazio \<and>
   snd (POST utc 0 0 0 (Some (''__proto__'', ''nota'', Some ''x'')) (estadoInicial utc 0)) =
     Erro500 \<and>
   pets (estadoInicial utc 0) ''constructor'' = None \<and>
   snd (GET_pet utc 0 (Some ''constructor'') (estadoInicial utc 0)) = Erro500"
  by code_simp

section \<open>Evaluation changes nothing\<close>

lemma calcularStatus_cong:
  "alertaSaude p = alertaSaude q \<Longrightarrow> ultimoHorarioComida p = ultimoHorarioComida q \<Longrightarrow>
   temRemedio p = temRemedio q \<Longrightarrow> ultimoHorarioRemedio p = ultimoHorarioRemedio q \<Longrightarrow>
   calcularStatus p agora = calcularStatus q agora"
  by (simp add: calcularStatus_def)

lemma calcularStatusM_eq:
  "calcularStatusM nome w =
     (map_option (\<lambda>p. calcularStatus p (relogio w (leituras w))) (pets (loja w) nome),
      w\<lparr>leituras := Suc (leituras w)\<rparr>)"
  by (cases "pets (loja w) nome") (simp_all add: calcularStatusM_def novaData_def calcularStatus_def)

text \<open>
  C9. The call \<^verbatim>\<open>calcularStatus(pets[nome])\<close>, run in a world, returns the value of
  the function \<^verbatim>\<open>calcularStatus\<close> of the record and of the one clock reading it takes,
  and leaves the world as it was but for that reading being taken: the store (every
  record and \<^verbatim>\<open>ultimoReset\<close>) and the clock's readings are unchanged. Two calls, in
  any two worlds, on the same record with the same reading return the same result.
\<close>

theorem calcularStatusM_pure:
  "calcularStatusM nome w =
     (map_option (\<lambda>p. calcularStatus p (relogio w (leituras w))) (pets (loja w) nome),
      w\<lparr>leituras := Suc (leituras w)\<rparr>) \<and>
   loja (snd (calcularStatusM nome w)) = loja w \<and>
   relogio (snd (calcularStatusM nome w)) = relogio w \<and>
   (pets (loja w) nome = pets (loja w') nome' \<and>
    relogio w (leituras w) = relogio w' (leituras w') \<longrightarrow>
      fst (calcularStatusM nome w) = fst (calcularStatusM nome' w'))"
  by (simp add: calcularStatusM_eq)

theorem calcularStatusM_pure_witness:
  "pets (loja \<lparr>loja = estadoInicial utc 0, relogio = (\<lambda>k. 43200000), leituras = 0\<rparr>) ''tutu'' =
     pets (loja \<lparr>loja = \<lparr>pets = [''gato'' \<mapsto> tutu], ultimoReset = 9\<rparr>,
                 relogio = (\<lambda>k. int k * 14400000), leituras = 3\<rparr>) ''gato'' \<and>
   relogio \<lparr>loja = estadoInicial utc 0, relogio = (\<lambda>k. 43200000), leituras = 0\<rparr>
     (leituras \<lparr>loja = estadoInicial utc 0, relogio = (\<lambda>k. 43200000), leituras = 0\<rparr>) =
   relogio \<lparr>loja = \<lparr>pets = [''gato'' \<mapsto> tutu], ultimoReset = 9\<rparr>,
            relogio = (\<lambda>k. int k * 14400000), leituras = 3\<rparr>
     (leituras \<lparr>loja = \<lparr>pets = [''gato'' \<mapsto> tutu], ultimoReset = 9\<rparr>,
               relogio = (\<lambda>k. int k * 14400000), leituras = 3\<rparr>) \<and>
   fst (calcularStatusM ''tutu''
          \<lparr>loja = estadoInicial utc 0, relogio = (\<lambda>k. 43200000), leituras = 0\<rparr>) =
   fst (calcularStatusM ''gato''
          \<lparr>loja = \<lparr>pets = [''gato'' \<mapsto> tutu], ultimoReset = 9\<rparr>,
           relogio = (\<lambda>k. int k * 14400000), leituras = 3\<rparr>) \<and>
   fst (calcularStatusM ''tutu''
          \<lparr>loja = estadoInicial utc 0, relogio = (\<lambda>k. 43200000), leituras = 0\<rparr>) =
     Some \<lparr>tipo = ''ok'', mensagem = Tudo_certo\<rparr>"
proof -
  let ?w = "\<lparr>loja = estadoInicial utc 0, relogio = (\<lambda>k. 43200000), leituras = 0\<rparr>"
  let ?w' = "\<lparr>loja = \<lparr>pets = [''gato'' \<mapsto> tutu], ultimoReset = 9\<rparr>,
              relogio = (\<lambda>k. int k * 14400000), leituras = 3\<rparr>"
  have h1: "pets (loja ?w) ''tutu'' = pets (loja ?w') ''gato''"
    by (simp add: estadoInicial_def)
  have h2: "relogio ?w (leituras ?w) = relogio ?w' (leituras ?w')"
    by simp
  from calcularStatusM_pure [of "''tutu''" ?w ?w' "''gato''"] h1 h2
  have c1: "fst (calcularStatusM ''tutu'' ?w) = fst (calcularStatusM ''gato'' ?w')"
    by blast
  have c2: "fst (calcularStatusM ''tutu'' ?w) = Some \<lparr>tipo = ''ok'', mensagem = Tudo_certo\<rparr>"
    by (simp add: calcularStatusM_eq estadoInicial_def calcularStatus_def tutu_def)
  show ?thesis
    by (intro conjI h1 h2 c1 c2)
qed

section \<open>What the daily reset leaves alone\<close>

lemma pets_verificarReset:
  "pets (verificarReset tza t st) a =
     (if getDate tza t \<noteq> ultimoReset st then map_option zerarContadores (pets st a)
      else pets st a)"
  by (simp add: verificarReset_def Let_def)

text \<open>
  C10. \<^verbatim>\<open>verificarReset\<close> keeps the animals of the store, and each record after it is
  the record before it except for \<^verbatim>\<open>comida\<close>, \<^verbatim>\<open>ultimoHorarioComida\<close>, \<^verbatim>\<open>remedio\<close> and
  \<^verbatim>\<open>ultimoHorarioRemedio\<close>: the notes, the health flag, \<^verbatim>\<open>maxComida\<close>, \<^verbatim>\<open>maxRemedio\<close>,
  \<^verbatim>\<open>temRemedio\<close>, species, breed, gender, birth date, weight and colour are unchanged,
  and for a pet without medication so are \<^verbatim>\<open>remedio\<close> and \<^verbatim>\<open>ultimoHorarioRemedio\<close>.
\<close>

theorem verificarReset_frame:
  assumes "pets st a = Some p"
  shows "dom (pets (verificarReset tza agora st)) = dom (pets st) \<and>
    (\<exists>q. pets (verificarReset tza agora st) a = Some q \<and>
       q = p\<lparr>comida := comida q, ultimoHorarioComida := ultimoHorarioComida q,
              remedio := remedio q, ultimoHorarioRemedio := ultimoHorarioRemedio q\<rparr> \<and>
       notas q = notas p \<and> alertaSaude q = alertaSaude p \<and>
       maxComida q = maxComida p \<and> maxRemedio q = maxRemedio p \<and>
       temRemedio q = temRemedio p \<and>
       especie q = especie p \<and> raca q = raca p \<and> genero q = genero p \<and>
       dataNascimento q = dataNascimento p \<and> peso q = peso p \<and> cor q = cor p \<and>
       (\<not> temRemedio p \<longrightarrow>
          remedio q = remedio p \<and> ultimoHorarioRemedio q = ultimoHorarioRemedio p))"
proof
  show "dom (pets (verificarReset tza agora st)) = dom (pets st)"
    by (auto simp: pets_verificarReset dom_def)
next
  show "\<exists>q. pets (verificarReset tza agora st) a = Some q \<and>
       q = p\<lparr>comida := comida q, ultimoHorarioComida := ultimoHorarioComida q,
              remedio := remedio q, ultimoHorarioRemedio := ultimoHorarioRemedio q\<rparr> \<and>
       notas q = notas p \<and> alertaSaude q = alertaSaude p \<and>
       maxComida q = maxComida p \<and> maxRemedio q = maxRemedio p \<and>
       temRemedio q = temRemedio p \<and>
       especie q = especie p \<and> raca q = raca p \<and> genero q = genero p \<and>
       dataNascimento q = dataNascimento p \<and> peso q = peso p \<and> cor q = cor p \<and>
       (\<not> temRemedio p \<longrightarrow>
          remedio q = remedio p \<and> ultimoHorarioRemedio q = ultimoHorarioRemedio p)"
    using assms by (simp add: pets_verificarReset zerarContadores_def Let_def)
qed

theorem verificarReset_frame_witness:
  "pets (estadoInicial utc 0) ''tutu'' = Some tutu \<and>
   dom (pets (verificarReset utc 1736899200000 (estadoInicial utc 0))) =
     dom (pets (estadoInicial utc 0)) \<and>
   (\<exists>q. pets (verificarReset utc 1736899200000 (estadoInicial utc 0)) ''tutu'' = Some q \<and>
      notas q = notas tutu \<and> alertaSaude q = alertaSaude tutu \<and>
      maxComida q = maxComida tutu \<and> temRemedio q = temRemedio tutu)"
proof -
  have h: "pets (estadoInicial utc 0) ''tutu'' = Some tutu"
    by (simp add: estadoInicial_def)
  show ?thesis
    using h verificarReset_frame [OF h, of utc 1736899200000] by blast
qed

section \<open>Every record of the store has a history\<close>

text \<open>
  Whatever sequence of \<^verbatim>\<open>POST\<close> calls the store serves, each of its records is the
  result of a history of updates and daily resets on the record it started as. What
  holds of every history holds of every record the store can reach.
\<close>

lemma historico_append: "historico (es @ fs) p = historico fs (historico es p)"
  by (induction es arbitrary: p) simp_all

lemma verificarReset_historico:
  assumes "pets st a = Some p"
  shows "\<exists>es. pets (verificarReset tza r st) a = Some (historico es p)"
proof (cases "getDate tza r \<noteq> ultimoReset st")
  case True
  with assms have "pets (verificarReset tza r st) a = Some (historico [Zeragem] p)"
    by (simp add: pets_verificarReset)
  then show ?thesis by blast
next
  case False
  with assms have "pets (verificarReset tza r st) a = Some (historico [] p)"
    by (simp add: pets_verificarReset)
  then show ?thesis by blast
qed

lemma obter_Registro: "obter ps animal = Registro q \<Longrightarrow> ps animal = Some q"
  by (simp add: obter_def split: option.splits if_splits)

lemma POST_historico:
  assumes "pets st a = Some p"
  shows "\<exists>es. pets (fst (POST tza r t n body st)) a = Some (historico es p)"
proof -
  obtain es where st1: "pets (verificarReset tza r st) a = Some (historico es p)"
    using verificarReset_historico [OF assms] by blast
  show ?thesis
  proof (cases body)
    case None
    then have "fst (POST tza r t n body st) = verificarReset tza r st"
      by (simp add: POST_def Let_def)
    with st1 show ?thesis by auto
  next
    case (Some b)
    obtain animal tp tx where b: "b = (animal, tp, tx)"
      by (cases b) auto
    show ?thesis
    proof (cases "obter (pets (verificarReset tza r st)) animal")
      case (Registro q)
      then have q: "pets (verificarReset tza r st) animal = Some q"
        by (rule obter_Registro)
      have upd: "pets (fst (POST tza r t n body st)) =
                 (pets (verificarReset tza r st))(animal \<mapsto> atualizar t n tp tx q)"
        by (simp add: POST_def Let_def Some b Registro)
      show ?thesis
      proof (cases "animal = a")
        case True
        with q st1 have "q = historico es p" by simp
        then have "pets (fst (POST tza r t n body st)) a =
                   Some (historico (es @ [Atualizacao t n tp tx]) p)"
          by (simp add: upd True historico_append)
        then show ?thesis by blast
      next
        case False
        then have "pets (fst (POST tza r t n body st)) a = Some (historico es p)"
          by (simp add: upd st1)
        then show ?thesis by blast
      qed
    next
      case Indefinido
      then have "fst (POST tza r t n body st) = verificarReset tza r st"
        by (simp add: POST_def Let_def Some b)
      with st1 show ?thesis by auto
    next
      case ObjectPrototype
      then have "fst (POST tza r t n body st) = verificarReset tza r st"
        by (simp add: POST_def Let_def Some b)
      with st1 show ?thesis by auto
    next
      case FuncaoHerdada
      then have "fst (POST tza r t n body st) = verificarReset tza r st"
        by (simp add: POST_def Let_def Some b)
      with st1 show ?thesis by auto
    qed
  qed
qed

lemma POSTs_historico:
  "pets st a = Some p \<Longrightarrow> \<exists>es. pets (POSTs tza cs st) a = Some (historico es p)"
proof (induction cs arbitrary: st p)
  case Nil
  then have "pets (POSTs tza [] st) a = Some (historico [] p)" by simp
  then show ?case by blast
next
  case (Cons c cs)
  obtain r t n body where c: "c = (r, t, n, body)"
    by (cases c) auto
  obtain es where 1: "pets (fst (POST tza r t n body st)) a = Some (historico es p)"
    using POST_historico [OF Cons.prems] by blast
  obtain fs where 2: "pets (POSTs tza cs (fst (POST tza r t n body st))) a =
                      Some (historico fs (historico es p))"
    using Cons.IH [OF 1] by blast
  then have "pets (POSTs tza (c # cs) st) a = Some (historico (es @ fs) p)"
    by (simp add: c historico_append)
  then show ?case by blast
qed

text \<open>
  With resets in the history, the feed counter stays within a cap that is not negative.
\<close>

lemma comida_zerarContadores:
  "0 \<le> maxComida p \<Longrightarrow> comida (zerarContadores p) \<le> maxComida (zerarContadores p)"
  by (simp add: zerarContadores_def Let_def)

lemma maxComida_zerarContadores: "maxComida (zerarContadores p) = maxComida p"
  by (simp add: zerarContadores_def Let_def)

lemma comida_historico:
  "0 \<le> maxComida p \<Longrightarrow> comida p \<le> maxComida p \<Longrightarrow>
   comida (historico es p) \<le> maxComida p \<and> maxComida (historico es p) = maxComida p"
proof (induction es arbitrary: p)
  case Nil
  then show ?case by simp
next
  case (Cons e es)
  have m: "maxComida (aplicar e p) = maxComida p"
    by (cases e) (simp_all add: maxComida_atualizar maxComida_zerarContadores)
  have c: "comida (aplicar e p) \<le> maxComida (aplicar e p)"
    using Cons.prems
    by (cases e) (simp_all add: comida_atualizar comida_zerarContadores)
  from Cons.IH [of "aplicar e p"] Cons.prems m c show ?case
    by simp
qed

section \<open>A month between two calls\<close>

lemma verificarReset_reset:
  "getDate tza agora \<noteq> ultimoReset st \<Longrightarrow>
   verificarReset tza agora st =
     \<lparr>pets = (\<lambda>animal. map_option zerarContadores (pets st animal)),
      ultimoReset = getDate tza agora\<rparr>"
  by (simp add: verificarReset_def Let_def)

lemma three_day_jump:
  "snd (GET_pet utc (1736942400000 + 3 * 86400000) (Some ''tutu'')
         (fst (POST utc 1736942400000 1736942400000 1736942400000
                 (Some (''tutu'', ''comida'', None)) (estadoInicial utc 1736942400000)))) =
     Ok200 tutu"
  by code_simp

text \<open>
  C1 at an input where the code departs from it. The module is loaded and Tutu is fed
  at noon of 15 January 2025; the next call comes at noon of 15 February 2025, 31
  calendar days later. \<^verbatim>\<open>getDate\<close> is 15 at both times, so \<^verbatim>\<open>verificarReset\<close> does
  not reset: the read still answers \<^verbatim>\<open>comida = 1\<close> and the feed time of January.
\<close>

theorem verificarReset_month_jump:
  "diaCivil utc 1739620800000 - diaCivil utc 1736942400000 = 31 \<and>
   getDate utc 1736942400000 = 15 \<and> getDate utc 1739620800000 = 15 \<and>
   snd (GET_pet utc 1739620800000 (Some ''tutu'')
         (fst (POST utc 1736942400000 1736942400000 1736942400000
                 (Some (''tutu'', ''comida'', None)) (estadoInicial utc 1736942400000)))) =
     Ok200 (tutu\<lparr>comida := 1, ultimoHorarioComida := Some 1736942400000\<rparr>)"
  by code_simp

end
